theory Spec2Isabelle
  imports Main "HOL-Library.Sublist" "HOL-Library.Multiset"
begin

section \<open>Data model of mk_syscalls_linux.go\<close>

text \<open>
  Go strings are byte sequences; a \<^typ>\<open>string\<close> is a list of 8-bit characters.
  Go's \<open>int\<close> is taken as the 64-bit signed integer of the platforms the generator runs on:
  a syscall number is an \<^typ>\<open>int\<close> that \<open>strconv.Atoi\<close> keeps inside the signed 64-bit range,
  and the one addition of the program wraps around explicitly (\<open>wrapInt\<close>).
\<close>

record Syscall =
  Num :: int
  Name :: string

text \<open>The field \<open>Name\<close> of the Go struct \<open>Arch\<close> is called \<open>ArchName\<close>, since a record field
  is a constant of its own and \<open>Name\<close> is the field of \<open>Syscall\<close>.\<close>

record Arch =
  ArchName :: string
  Syscalls :: "Syscall list"

text \<open>Every error value the program builds. The formatted messages carry the line or the
  status code; the cause reported by a library call is not kept.\<close>

datatype error =
    UnexpectedLineFormat string
  | FailedToParseSyscallNumber string
  | HttpGetFailed
  | DownloadFailedWithStatus int
  | FailedToCreateOutputFile
  | FailedToWriteFileToDisk
  | OpenFailed
  | ScanTokenTooLong
  | TempDirFailed
  | CreateOutputFailed
  | TemplateExecuteFailed

definition wrapInt :: "int \<Rightarrow> int" where
  "wrapInt x = (x + 2 ^ 63) mod 2 ^ 64 - 2 ^ 63"

section \<open>Library functions on strings\<close>

subsection \<open>White space (unicode.IsSpace) on UTF-8 bytes\<close>

text \<open>
  \<open>strings.Fields\<close> and \<open>strings.TrimSpace\<close> split at the runes of \<open>unicode.IsSpace\<close>:
  the six ASCII characters tab, line feed, vertical tab, form feed, carriage return and space,
  and U+0085, U+00A0, U+1680, U+2000..U+200A, U+2028, U+2029, U+202F, U+205F, U+3000.
  \<open>spaceRunes\<close> lists their UTF-8 encodings. A byte that starts an encoding is never a
  continuation byte, so Go's decoder reads a white space rune exactly where one of these
  byte sequences stands.
\<close>

definition spaceRunes :: "string list" where
  "spaceRunes =
     [[CHR 0x09], [CHR 0x0A], [CHR 0x0B], [CHR 0x0C], [CHR 0x0D], [CHR 0x20],
      [CHR 0xC2, CHR 0x85], [CHR 0xC2, CHR 0xA0],
      [CHR 0xE1, CHR 0x9A, CHR 0x80],
      [CHR 0xE2, CHR 0x80, CHR 0x80], [CHR 0xE2, CHR 0x80, CHR 0x81],
      [CHR 0xE2, CHR 0x80, CHR 0x82], [CHR 0xE2, CHR 0x80, CHR 0x83],
      [CHR 0xE2, CHR 0x80, CHR 0x84], [CHR 0xE2, CHR 0x80, CHR 0x85],
      [CHR 0xE2, CHR 0x80, CHR 0x86], [CHR 0xE2, CHR 0x80, CHR 0x87],
      [CHR 0xE2, CHR 0x80, CHR 0x88], [CHR 0xE2, CHR 0x80, CHR 0x89],
      [CHR 0xE2, CHR 0x80, CHR 0x8A],
      [CHR 0xE2, CHR 0x80, CHR 0xA8], [CHR 0xE2, CHR 0x80, CHR 0xA9],
      [CHR 0xE2, CHR 0x80, CHR 0xAF],
      [CHR 0xE2, CHR 0x81, CHR 0x9F],
      [CHR 0xE3, CHR 0x80, CHR 0x80]]"

text \<open>The number of bytes of the white space rune that starts \<open>s\<close>; 0 when none does.\<close>

definition spaceWidth :: "string \<Rightarrow> nat" where
  "spaceWidth s = (case List.find (\<lambda>p. prefix p s) spaceRunes of None \<Rightarrow> 0 | Some p \<Rightarrow> length p)"

subsection \<open>strings.HasPrefix, strings.Fields, strings.TrimSpace\<close>

definition HasPrefix :: "string \<Rightarrow> string \<Rightarrow> bool" where
  "HasPrefix s pre = prefix pre s"

text \<open>
  \<open>strings.Fields\<close> walks the runes of the string: a white space rune closes the field that
  is open, any other byte opens or extends one. \<open>fieldsFrom k cur s\<close> has \<open>k\<close> bytes of a
  white space rune still to skip and \<open>cur\<close> the bytes of the open field.
\<close>

definition flushField :: "string \<Rightarrow> string list" where
  "flushField cur = (if cur = [] then [] else [cur])"

fun fieldsFrom :: "nat \<Rightarrow> string \<Rightarrow> string \<Rightarrow> string list" where
  "fieldsFrom k cur [] = flushField cur"
| "fieldsFrom (Suc k) cur (c # s) = fieldsFrom k cur s"
| "fieldsFrom 0 cur (c # s) =
     (case spaceWidth (c # s) of
        0 \<Rightarrow> fieldsFrom 0 (cur @ [c]) s
      | Suc k \<Rightarrow> flushField cur @ fieldsFrom k [] s)"

definition Fields :: "string \<Rightarrow> string list" where
  "Fields s = fieldsFrom 0 [] s"

text \<open>\<open>strings.TrimSpace\<close>: the leading and the trailing white space runes are cut off.\<close>

fun trimLeftFrom :: "nat \<Rightarrow> string \<Rightarrow> string" where
  "trimLeftFrom k [] = []"
| "trimLeftFrom (Suc k) (c # s) = trimLeftFrom k s"
| "trimLeftFrom 0 (c # s) =
     (case spaceWidth (c # s) of 0 \<Rightarrow> c # s | Suc k \<Rightarrow> trimLeftFrom k s)"

definition spaceSuffix :: "string \<Rightarrow> string option" where
  "spaceSuffix s = List.find (\<lambda>p. suffix p s) spaceRunes"

lemma spaceRunes_nonempty: "p \<in> set spaceRunes \<Longrightarrow> p \<noteq> []"
  by (auto simp: spaceRunes_def)

lemma spaceSuffix_shorter:
  assumes "spaceSuffix s = Some p"
  shows "length s - length p < length s"
proof -
  from assms have "p \<in> set spaceRunes" and "suffix p s"
    by (auto simp: spaceSuffix_def find_Some_iff)
  then have "p \<noteq> []" and "length p \<le> length s"
    by (auto simp: spaceRunes_nonempty suffix_length_le)
  then show ?thesis by (cases p) auto
qed

function trimRight :: "string \<Rightarrow> string" where
  "trimRight s =
     (case spaceSuffix s of None \<Rightarrow> s | Some p \<Rightarrow> trimRight (take (length s - length p) s))"
  by pat_completeness auto
termination
  by (relation "measure length") (auto dest: spaceSuffix_shorter)

definition TrimSpace :: "string \<Rightarrow> string" where
  "TrimSpace s = trimRight (trimLeftFrom 0 s)"

subsection \<open>strconv.Atoi\<close>

text \<open>
  \<open>strconv.Atoi\<close> accepts an optional sign followed by one or more decimal digits whose value
  fits the 64-bit \<open>int\<close>; anything else is an error (\<open>None\<close>: a syntax or a range error).
\<close>

definition isDigit :: "char \<Rightarrow> bool" where
  "isDigit c = (48 \<le> (of_char c :: nat) \<and> (of_char c :: nat) \<le> 57)"

definition digitVal :: "char \<Rightarrow> int" where
  "digitVal c = int (of_char c) - 48"

definition digitsVal :: "string \<Rightarrow> int" where
  "digitsVal ds = foldl (\<lambda>n ch. n * 10 + digitVal ch) 0 ds"

definition Atoi :: "string \<Rightarrow> int option" where
  "Atoi s =
     (case s of
        [] \<Rightarrow> None
      | c # r \<Rightarrow>
          (let ds = (if c = CHR ''-'' \<or> c = CHR ''+'' then r else s)
           in if ds = [] \<or> \<not> list_all isDigit ds then None
              else let v = (if c = CHR ''-'' then - digitsVal ds else digitsVal ds)
                   in if v < - (2 ^ 63) \<or> 2 ^ 63 - 1 < v then None else Some v))"

section \<open>The line parsers of the table-format files\<close>

text \<open>
  A parser is the closure a builder hands to \<open>readSyscalls\<close>. Its Go result
  \<open>(*Syscall, error)\<close> is \<open>Inl err\<close> for an error, \<open>Inr None\<close> for \<open>(nil, nil)\<close> (the line
  yields nothing) and \<open>Inr (Some sc)\<close> for a syscall. \<open>fields[0]\<close>, \<open>fields[1]\<close> and
  \<open>fields[2]\<close> are read after the check \<open>len(fields) < 3\<close>, here by the list pattern.
\<close>

type_synonym parser = "string \<Rightarrow> error + Syscall option"

definition buildARM_parseTable :: parser where
  "buildARM_parseTable line =
     (if length line = 0 \<or> HasPrefix line ''#'' then Inr None
      else case Fields line of
        f0 # f1 # f2 # rest \<Rightarrow>
          (if f1 = ''oabi'' then Inr None
           else case Atoi f0 of
                  None \<Rightarrow> Inl (FailedToParseSyscallNumber line)
                | Some num \<Rightarrow> Inr (Some \<lparr>Num = num, Name = f2\<rparr>))
      | _ \<Rightarrow> Inl (UnexpectedLineFormat line))"

definition build386_parse :: parser where
  "build386_parse line =
     (if length line = 0 \<or> HasPrefix line ''#'' then Inr None
      else case Fields line of
        f0 # f1 # f2 # rest \<Rightarrow>
          (case Atoi f0 of
             None \<Rightarrow> Inl (FailedToParseSyscallNumber line)
           | Some num \<Rightarrow> Inr (Some \<lparr>Num = num, Name = f2\<rparr>))
      | _ \<Rightarrow> Inl (UnexpectedLineFormat line))"

definition buildX32_parse :: parser where
  "buildX32_parse line =
     (if length line = 0 \<or> HasPrefix line ''#'' then Inr None
      else case Fields line of
        f0 # f1 # f2 # rest \<Rightarrow>
          (if f1 = ''x64'' then Inr None
           else case Atoi f0 of
                  None \<Rightarrow> Inl (FailedToParseSyscallNumber line)
                | Some num \<Rightarrow> Inr (Some \<lparr>Num = num, Name = f2\<rparr>))
      | _ \<Rightarrow> Inl (UnexpectedLineFormat line))"

definition buildX86_64_parse :: parser where
  "buildX86_64_parse line =
     (if length line = 0 \<or> HasPrefix line ''#'' then Inr None
      else case Fields line of
        f0 # f1 # f2 # rest \<Rightarrow>
          (if f1 = ''x32'' then Inr None
           else case Atoi f0 of
                  None \<Rightarrow> Inl (FailedToParseSyscallNumber line)
                | Some num \<Rightarrow> Inr (Some \<lparr>Num = num, Name = f2\<rparr>))
      | _ \<Rightarrow> Inl (UnexpectedLineFormat line))"

section \<open>Regular expressions (package regexp)\<close>

text \<open>
  The two patterns of the program use the start-of-text anchor, literal text, three
  character classes, one optional non-capturing group, the greedy \<open>+\<close> and two capture
  groups. \<open>rmatch t r s c\<close> lists every way \<open>r\<close> can match at the start of \<open>s\<close>, a suffix of the
  whole text \<open>t\<close>, in Go's order of preference (leftmost-first: a greedy operator tries the
  longer match first): the rest of the text after the match, and the captures. The classes
  and literals of the patterns are ASCII, so matching bytes is matching runes. The length
  tests in \<open>Seq\<close> and \<open>Plus\<close> make the recursion terminate; a rest is never longer than
  the text it is a rest of (\<open>rmatch_length\<close>).
\<close>

datatype regex =
    Bol
  | Lit string
  | Cls "char \<Rightarrow> bool"
  | Seq regex regex
  | Opt regex
  | Plus regex
  | Cap nat regex

type_synonym caps = "nat \<Rightarrow> string option"

function rmatch :: "string \<Rightarrow> regex \<Rightarrow> string \<Rightarrow> caps \<Rightarrow> (string \<times> caps) list" where
  "rmatch t Bol s c = (if length s = length t then [(s, c)] else [])"
| "rmatch t (Lit l) s c = (if prefix l s then [(drop (length l) s, c)] else [])"
| "rmatch t (Cls p) s c = (case s of [] \<Rightarrow> [] | x # xs \<Rightarrow> if p x then [(xs, c)] else [])"
| "rmatch t (Seq r1 r2) s c =
     concat (map (\<lambda>(s1, c1). if length s1 \<le> length s then rmatch t r2 s1 c1 else [])
                 (rmatch t r1 s c))"
| "rmatch t (Opt r) s c = rmatch t r s c @ [(s, c)]"
| "rmatch t (Plus r) s c =
     concat (map (\<lambda>(s1, c1). (if length s1 < length s then rmatch t (Plus r) s1 c1 else [])
                                 @ [(s1, c1)])
                 (rmatch t r s c))"
| "rmatch t (Cap n r) s c =
     map (\<lambda>(s1, c1). (s1, c1(n \<mapsto> take (length s - length s1) s))) (rmatch t r s c)"
  by pat_completeness auto
termination
  by (relation "inv_image (less_than <*lex*> less_than) (\<lambda>(t, r, s, c). (length s, size r))")
     auto

fun numSubexp :: "regex \<Rightarrow> nat" where
  "numSubexp (Seq r1 r2) = numSubexp r1 + numSubexp r2"
| "numSubexp (Opt r) = numSubexp r"
| "numSubexp (Plus r) = numSubexp r"
| "numSubexp (Cap n r) = Suc (numSubexp r)"
| "numSubexp r = 0"

text \<open>
  \<open>FindStringSubmatch\<close> returns \<open>nil\<close> (the empty list) when the pattern matches nowhere,
  and otherwise the text of the leftmost match followed by the text of each capture group
  (empty for a group that took no part). \<open>findFrom\<close> tries the start positions from left
  to right.
\<close>

fun findFrom :: "regex \<Rightarrow> string \<Rightarrow> string \<Rightarrow> string list" where
  "findFrom re t s =
     (case rmatch t re s (\<lambda>i. None) of
        (rest, c) # others \<Rightarrow>
          take (length s - length rest) s #
          map (\<lambda>i. case c i of None \<Rightarrow> [] | Some g \<Rightarrow> g) [1 ..< Suc (numSubexp re)]
      | [] \<Rightarrow> (case s of [] \<Rightarrow> [] | x # s' \<Rightarrow> findFrom re t s'))"

definition FindStringSubmatch :: "regex \<Rightarrow> string \<Rightarrow> string list" where
  "FindStringSubmatch re s = findFrom re s s"

text \<open>The classes \<open>[a-z0-9_]\<close>, \<open>\\s\<close> (tab, line feed, form feed, carriage return, space)
  and \<open>\\d\<close>.\<close>

definition nameChar :: "char \<Rightarrow> bool" where
  "nameChar c = ((97 \<le> (of_char c :: nat) \<and> (of_char c :: nat) \<le> 122) \<or> isDigit c \<or> c = CHR ''_'')"

definition perlSpace :: "char \<Rightarrow> bool" where
  "perlSpace c = (c = CHR 0x09 \<or> c = CHR 0x0A \<or> c = CHR 0x0C \<or> c = CHR 0x0D \<or> c = CHR 0x20)"

section \<open>The line parsers of the header-format files\<close>

text \<open>The pattern of \<open>buildARM\<close>:
  \<^verbatim>\<open>^#define __ARM_NR_(?P<syscall>[a-z0-9_]+)\s+\(__ARM_NR_BASE\+(?P<number>\d+)\)\<close>\<close>

definition armUnistdSycallRegex_ARM :: regex where
  "armUnistdSycallRegex_ARM =
     Seq Bol (Seq (Lit ''#define __ARM_NR_'') (Seq (Cap 1 (Plus (Cls nameChar)))
       (Seq (Plus (Cls perlSpace)) (Seq (Lit ''(__ARM_NR_BASE+'')
         (Seq (Cap 2 (Plus (Cls isDigit))) (Lit '')''))))))"

definition armNrBase :: int where
  "armNrBase = 0x0f0000"

definition buildARM_parseHeader :: parser where
  "buildARM_parseHeader line =
     (case FindStringSubmatch armUnistdSycallRegex_ARM line of
        [m0, m1, m2] \<Rightarrow>
          (case Atoi m2 of
             None \<Rightarrow> Inl (FailedToParseSyscallNumber line)
           | Some num \<Rightarrow> Inr (Some \<lparr>Num = wrapInt (num + armNrBase), Name = m1\<rparr>))
      | _ \<Rightarrow> Inr None)"

text \<open>The pattern of \<open>buildAARCH64\<close>:
  \<^verbatim>\<open>^#define __NR(?:3264)?_(?P<syscall>[a-z0-9_]+)\s+(?P<number>\d+)\<close>\<close>

definition armUnistdSycallRegex_AARCH64 :: regex where
  "armUnistdSycallRegex_AARCH64 =
     Seq Bol (Seq (Lit ''#define __NR'') (Seq (Opt (Lit ''3264'')) (Seq (Lit ''_'')
       (Seq (Cap 1 (Plus (Cls nameChar))) (Seq (Plus (Cls perlSpace))
         (Cap 2 (Plus (Cls isDigit))))))))"

definition sentinel :: string where
  "sentinel = ''syscalls''"

text \<open>The Go map \<open>omit\<close>: a name that is not a key reads as \<open>false\<close>.\<close>

definition omit :: "string \<Rightarrow> bool" where
  "omit name = (name = ''sync_file_range2'')"

definition buildAARCH64_parse :: parser where
  "buildAARCH64_parse line =
     (case FindStringSubmatch armUnistdSycallRegex_AARCH64 line of
        [m0, m1, m2] \<Rightarrow>
          (if m1 = sentinel \<or> omit m1 then Inr None
           else case Atoi m2 of
                  None \<Rightarrow> Inl (FailedToParseSyscallNumber line)
                | Some num \<Rightarrow> Inr (Some \<lparr>Num = num, Name = m1\<rparr>))
      | _ \<Rightarrow> Inr None)"

section \<open>Files, the network and the process\<close>

text \<open>
  What the program does to the outside is explicit state passing over a \<open>world\<close>: the
  regular files by path, the directories, and how each call into the operating system or the
  network answers. \<open>httpGet\<close> is \<open>None\<close> when \<open>http.Get\<close> returns an error; \<open>createFails\<close>
  says whether \<open>os.Create\<close> of a path fails; \<open>writeFails\<close> gives, for a path, the number of
  bytes that reach the file before writing into it fails (\<open>None\<close>: the write completes);
  \<open>openFails\<close> says whether \<open>os.Open\<close> fails; \<open>tempDir\<close> is the fresh directory
  \<open>ioutil.TempDir\<close> creates, or \<open>None\<close> when it fails. Reading a local file that was opened
  does not fail.
\<close>

record Response =
  StatusCode :: int
  Body :: string

record world =
  httpGet :: "string \<Rightarrow> Response option"
  files :: "string \<Rightarrow> string option"
  dirs :: "string set"
  createFails :: "string \<Rightarrow> bool"
  writeFails :: "string \<Rightarrow> nat option"
  openFails :: "string \<Rightarrow> bool"
  tempDir :: "string option"

subsection \<open>Package path/filepath\<close>

fun splitFrom :: "char \<Rightarrow> string \<Rightarrow> string \<Rightarrow> string list" where
  "splitFrom sep cur [] = [cur]"
| "splitFrom sep cur (c # s) =
     (if c = sep then cur # splitFrom sep [] s else splitFrom sep (cur @ [c]) s)"

text \<open>\<open>filepath.Base\<close>: the last element of the path, trailing slashes removed first.\<close>

definition Base :: "string \<Rightarrow> string" where
  "Base path =
     (if path = [] then ''.''
      else let p = rev (dropWhile (\<lambda>c. c = CHR ''/'') (rev path));
               e = rev (takeWhile (\<lambda>c. c \<noteq> CHR ''/'') (rev p))
           in if e = [] then ''/'' else e)"

text \<open>\<open>filepath.Clean\<close>: empty and \<open>.\<close> elements go, a \<open>..\<close> removes the element before
  it, or stays when the path is not rooted and nothing but \<open>..\<close> is before it.\<close>

fun cleanElems :: "bool \<Rightarrow> string list \<Rightarrow> string list \<Rightarrow> string list" where
  "cleanElems rooted out [] = rev out"
| "cleanElems rooted out (e # es) =
     (if e = [] \<or> e = ''.'' then cleanElems rooted out es
      else if e = ''..'' then
        (case out of
           [] \<Rightarrow> if rooted then cleanElems rooted [] es else cleanElems rooted [e] es
         | e1 # out1 \<Rightarrow>
             if e1 = ''..'' then cleanElems rooted (e # out) es
             else cleanElems rooted out1 es)
      else cleanElems rooted (e # out) es)"

fun joinWith :: "string \<Rightarrow> string list \<Rightarrow> string" where
  "joinWith sep [] = []"
| "joinWith sep [e] = e"
| "joinWith sep (e # es) = e @ sep @ joinWith sep es"

definition Clean :: "string \<Rightarrow> string" where
  "Clean path =
     (if path = [] then ''.''
      else let rooted = (hd path = CHR ''/'');
               out = (if rooted then ''/'' else []) @
                     joinWith ''/'' (cleanElems rooted [] (splitFrom (CHR ''/'') [] path))
           in if out = [] then ''.'' else out)"

text \<open>\<open>filepath.Join\<close> of two elements.\<close>

definition Join :: "string \<Rightarrow> string \<Rightarrow> string" where
  "Join a b =
     (if a \<noteq> [] then Clean (a @ ''/'' @ b)
      else if b \<noteq> [] then Clean b
      else [])"

subsection \<open>downloadFile\<close>

definition StatusOK :: int where
  "StatusOK = 200"

definition downloadFile :: "string \<Rightarrow> string \<Rightarrow> world \<Rightarrow> (error + string) \<times> world" where
  "downloadFile url destinationDir w =
     (case httpGet w url of
        None \<Rightarrow> (Inl HttpGetFailed, w)
      | Some resp \<Rightarrow>
          if StatusCode resp \<noteq> StatusOK
          then (Inl (DownloadFailedWithStatus (StatusCode resp)), w)
          else let name = Join destinationDir (Base url)
               in if createFails w name then (Inl FailedToCreateOutputFile, w)
                  else case writeFails w name of
                         Some n \<Rightarrow>
                           (Inl FailedToWriteFileToDisk,
                            w\<lparr>files := (files w)(name \<mapsto> take n (Body resp))\<rparr>)
                       | None \<Rightarrow>
                           (Inr name, w\<lparr>files := (files w)(name \<mapsto> Body resp)\<rparr>))"

subsection \<open>bufio.Scanner with the default split function ScanLines\<close>

text \<open>
  The scanner yields the text between line feeds, without one trailing carriage return; a
  last piece with no line feed after it is a line when it is not empty. A line that does
  not fit the buffer of \<open>MaxScanTokenSize\<close> bytes stops the scan with an error after the
  lines before it.
\<close>

definition MaxScanTokenSize :: int where
  "MaxScanTokenSize = 64 * 1024"

fun linesFrom :: "string \<Rightarrow> string \<Rightarrow> string list" where
  "linesFrom cur [] = (if cur = [] then [] else [cur])"
| "linesFrom cur (c # s) =
     (if c = CHR 0x0A then cur # linesFrom [] s else linesFrom (cur @ [c]) s)"

definition dropCR :: "string \<Rightarrow> string" where
  "dropCR data = (if data \<noteq> [] \<and> last data = CHR 0x0D then butlast data else data)"

definition scanLines :: "string \<Rightarrow> string list \<times> error option" where
  "scanLines content =
     (let ls = linesFrom [] content;
          fit = takeWhile (\<lambda>l. int (length l) < MaxScanTokenSize) ls
      in (map dropCR fit, if length fit < length ls then Some ScanTokenTooLong else None))"

subsection \<open>readSyscalls\<close>

definition baseURL :: string where
  "baseURL = ''https://raw.githubusercontent.com/torvalds/linux/''"

definition osOpen :: "world \<Rightarrow> string \<Rightarrow> string option" where
  "osOpen w name = (if openFails w name then None else files w name)"

text \<open>The loop over the scanned lines: a parse error ends it and no list is returned.\<close>

fun scanLoop :: "parser \<Rightarrow> string list \<Rightarrow> Syscall list \<Rightarrow> error + Syscall list" where
  "scanLoop parse [] syscalls = Inr syscalls"
| "scanLoop parse (text # ls) syscalls =
     (case parse (TrimSpace text) of
        Inl err \<Rightarrow> Inl err
      | Inr None \<Rightarrow> scanLoop parse ls syscalls
      | Inr (Some syscall) \<Rightarrow> scanLoop parse ls (syscalls @ [syscall]))"

text \<open>The Go result \<open>([]*Syscall, error)\<close> is a pair: the last \<open>return\<close> hands back the list
  together with the scanner's error.\<close>

definition readSyscalls ::
  "string \<Rightarrow> string \<Rightarrow> string \<Rightarrow> parser \<Rightarrow> world \<Rightarrow> (Syscall list \<times> error option) \<times> world" where
  "readSyscalls linuxVersion path dir parse w =
     (let url = baseURL @ linuxVersion @ path
      in case downloadFile url dir w of
           (Inl err, w') \<Rightarrow> (([], Some err), w')
         | (Inr src, w') \<Rightarrow>
             (case osOpen w' src of
                None \<Rightarrow> (([], Some OpenFailed), w')
              | Some content \<Rightarrow>
                  (case scanLoop parse (fst (scanLines content)) [] of
                     Inl err \<Rightarrow> (([], Some err), w')
                   | Inr syscalls \<Rightarrow> ((syscalls, snd (scanLines content)), w'))))"

subsection \<open>sort.Slice\<close>

text \<open>
  \<open>sort.Slice\<close> is a parameter of the builders: a function from the comparison and the
  slice to the sorted slice. Its documentation promises a slice sorted by \<open>less\<close> that holds
  the same elements, and promises no stability.
\<close>

type_synonym sorter = "(Syscall \<Rightarrow> Syscall \<Rightarrow> bool) \<Rightarrow> Syscall list \<Rightarrow> Syscall list"

definition lessNum :: "Syscall \<Rightarrow> Syscall \<Rightarrow> bool" where
  "lessNum a b = (Num a < Num b)"

definition sortSliceContract :: "sorter \<Rightarrow> bool" where
  "sortSliceContract sortSlice =
     (\<forall>xs. mset (sortSlice lessNum xs) = mset xs \<and> sorted (map Num (sortSlice lessNum xs)))"

subsection \<open>The builders\<close>

text \<open>The path constants of the builders.\<close>

definition buildARM_tablePath :: string where
  "buildARM_tablePath = ''/arch/arm/tools/syscall.tbl''"

definition buildARM_headerPath :: string where
  "buildARM_headerPath = ''/arch/arm/include/uapi/asm/unistd.h''"

definition buildAARCH64_headerPath :: string where
  "buildAARCH64_headerPath = ''/include/uapi/asm-generic/unistd.h''"

definition build386_path :: string where
  "build386_path = ''/arch/x86/entry/syscalls/syscall_32.tbl''"

definition buildX32_path :: string where
  "buildX32_path = ''/arch/x86/entry/syscalls/syscall_64.tbl''"

definition buildX86_64_path :: string where
  "buildX86_64_path = ''/arch/x86/entry/syscalls/syscall_64.tbl''"

definition buildARM :: "sorter \<Rightarrow> string \<Rightarrow> string \<Rightarrow> world \<Rightarrow> (error + Arch) \<times> world" where
  "buildARM sortSlice linuxVersion dir w =
     (case readSyscalls linuxVersion buildARM_tablePath dir buildARM_parseTable w of
        ((syscallsA, Some err), w1) \<Rightarrow> (Inl err, w1)
      | ((syscallsA, None), w1) \<Rightarrow>
          (case readSyscalls linuxVersion buildARM_headerPath dir buildARM_parseHeader w1 of
             ((syscallsB, Some err), w2) \<Rightarrow> (Inl err, w2)
           | ((syscallsB, None), w2) \<Rightarrow>
               (Inr \<lparr>ArchName = ''ARM'', Syscalls = sortSlice lessNum (syscallsA @ syscallsB)\<rparr>,
                w2)))"

definition buildAARCH64 :: "sorter \<Rightarrow> string \<Rightarrow> string \<Rightarrow> world \<Rightarrow> (error + Arch) \<times> world" where
  "buildAARCH64 sortSlice linuxVersion dir w =
     (case readSyscalls linuxVersion buildAARCH64_headerPath dir buildAARCH64_parse w of
        ((syscalls, Some err), w1) \<Rightarrow> (Inl err, w1)
      | ((syscalls, None), w1) \<Rightarrow>
          (Inr \<lparr>ArchName = ''AARCH64'', Syscalls = sortSlice lessNum syscalls\<rparr>, w1))"

definition build386 :: "sorter \<Rightarrow> string \<Rightarrow> string \<Rightarrow> world \<Rightarrow> (error + Arch) \<times> world" where
  "build386 sortSlice linuxVersion dir w =
     (case readSyscalls linuxVersion build386_path dir build386_parse w of
        ((syscalls, Some err), w1) \<Rightarrow> (Inl err, w1)
      | ((syscalls, None), w1) \<Rightarrow>
          (Inr \<lparr>ArchName = ''386'', Syscalls = sortSlice lessNum syscalls\<rparr>, w1))"

definition buildX32 :: "sorter \<Rightarrow> string \<Rightarrow> string \<Rightarrow> world \<Rightarrow> (error + Arch) \<times> world" where
  "buildX32 sortSlice linuxVersion dir w =
     (case readSyscalls linuxVersion buildX32_path dir buildX32_parse w of
        ((syscalls, Some err), w1) \<Rightarrow> (Inl err, w1)
      | ((syscalls, None), w1) \<Rightarrow>
          (Inr \<lparr>ArchName = ''X32'', Syscalls = sortSlice lessNum syscalls\<rparr>, w1))"

definition buildX86_64 :: "sorter \<Rightarrow> string \<Rightarrow> string \<Rightarrow> world \<Rightarrow> (error + Arch) \<times> world" where
  "buildX86_64 sortSlice linuxVersion dir w =
     (case readSyscalls linuxVersion buildX86_64_path dir buildX86_64_parse w of
        ((syscalls, Some err), w1) \<Rightarrow> (Inl err, w1)
      | ((syscalls, None), w1) \<Rightarrow>
          (Inr \<lparr>ArchName = ''X86_64'', Syscalls = sortSlice lessNum syscalls\<rparr>, w1))"

subsection \<open>The template\<close>

text \<open>
  \<open>execTemplate\<close> is what \<open>tmpl.Execute\<close> writes for \<open>fileTemplate\<close>: the text before the
  first action, the version, and for each architecture one map literal with one line per
  syscall. An action opened with \<^verbatim>\<open>{{-\<close> removes the white space before it, so the line
  feed before each inner \<open>range\<close> and \<open>end\<close> is not written. A number prints in decimal, a
  string as it is.
\<close>

record TemplateParams =
  LinuxVersion :: string
  Arches :: "Arch list"

function decimal :: "int \<Rightarrow> string" where
  "decimal i =
     (if i < 10 then [char_of (48 + i)] else decimal (i div 10) @ [char_of (48 + i mod 10)])"
  by pat_completeness auto
termination
  by (relation "measure nat") auto

declare decimal.simps [simp del]

definition Itoa :: "int \<Rightarrow> string" where
  "Itoa i = (if i < 0 then CHR ''-'' # decimal (- i) else decimal i)"

definition quoted :: "string \<Rightarrow> string" where
  "quoted s = CHR 0x22 # s @ [CHR 0x22]"

definition templateHead :: string where
  "templateHead =
     concat (map (\<lambda>l. l @ [CHR 0x0A])
       [''// Licensed to Elasticsearch B.V. under one or more contributor'',
        ''// license agreements. See the NOTICE file distributed with'',
        ''// this work for additional information regarding copyright'',
        ''// ownership. Elasticsearch B.V. licenses this file to you under'',
        ''// the Apache License, Version 2.0 (the '' @ quoted ''License'' @ ''); you may'',
        ''// not use this file except in compliance with the License.'',
        ''// You may obtain a copy of the License at'',
        ''//'',
        ''//     http://www.apache.org/licenses/LICENSE-2.0'',
        ''//'',
        ''// Unless required by applicable law or agreed to in writing,'',
        ''// software distributed under the License is distributed on an'',
        ''// '' @ quoted ''AS IS'' @ '' BASIS, WITHOUT WARRANTIES OR CONDITIONS OF ANY'',
        ''// KIND, either express or implied.  See the License for the'',
        ''// specific language governing permissions and limitations'',
        ''// under the License.'',
        [],
        ''// Code generated by mk_syscalls_linux.go - DO NOT EDIT.'',
        [],
        ''package arch'',
        []])
     @ ''// Based on Linux ''"

definition renderSyscall :: "Syscall \<Rightarrow> string" where
  "renderSyscall s = [CHR 0x0A, CHR 0x09] @ Itoa (Num s) @ '': '' @ quoted (Name s) @ '',''"

definition renderArch :: "Arch \<Rightarrow> string" where
  "renderArch a =
     [CHR 0x0A] @ ''var syscalls'' @ ArchName a @ '' = map[int]string{''
     @ concat (map renderSyscall (Syscalls a)) @ [CHR 0x0A] @ ''}'' @ [CHR 0x0A]"

definition execTemplate :: "TemplateParams \<Rightarrow> string" where
  "execTemplate params =
     templateHead @ LinuxVersion params @ ''.'' @ [CHR 0x0A]
     @ concat (map renderArch (Arches params)) @ [CHR 0x0A]"

subsection \<open>main\<close>

text \<open>
  \<open>log.Fatal\<close> writes the error and calls \<open>os.Exit(1)\<close>: the process ends there and the
  deferred calls of \<open>main\<close> do not run. When \<open>main\<close> returns, the deferred calls run:
  \<open>out.Close()\<close>, then \<open>os.RemoveAll(tmp)\<close>.
\<close>

datatype exit = Exit0 | Fatal error

definition TempDir :: "world \<Rightarrow> string option \<times> world" where
  "TempDir w =
     (case tempDir w of
        None \<Rightarrow> (None, w)
      | Some tmp \<Rightarrow> (Some tmp, w\<lparr>dirs := insert tmp (dirs w)\<rparr>))"

definition inside :: "string \<Rightarrow> string \<Rightarrow> bool" where
  "inside p q = (q = p \<or> prefix (p @ ''/'') q)"

definition RemoveAll :: "string \<Rightarrow> world \<Rightarrow> world" where
  "RemoveAll p w =
     w\<lparr>files := (\<lambda>q. if inside p q then None else files w q),
       dirs := {d \<in> dirs w. \<not> inside p d}\<rparr>"

type_synonym builderFunc = "string \<Rightarrow> world \<Rightarrow> (error + Arch) \<times> world"

fun runBuilders :: "builderFunc list \<Rightarrow> string \<Rightarrow> Arch list \<Rightarrow> world \<Rightarrow> (error + Arch list) \<times> world" where
  "runBuilders [] tmp arches w = (Inr arches, w)"
| "runBuilders (b # bs) tmp arches w =
     (case b tmp w of
        (Inl err, w') \<Rightarrow> (Inl err, w')
      | (Inr arch, w') \<Rightarrow> runBuilders bs tmp (arches @ [arch]) w')"

definition builders :: "sorter \<Rightarrow> string \<Rightarrow> builderFunc list" where
  "builders sortSlice linuxVersion =
     [buildARM sortSlice linuxVersion,
      buildAARCH64 sortSlice linuxVersion,
      build386 sortSlice linuxVersion,
      buildX32 sortSlice linuxVersion,
      buildX86_64 sortSlice linuxVersion]"

definition main :: "sorter \<Rightarrow> string \<Rightarrow> string \<Rightarrow> world \<Rightarrow> exit \<times> world" where
  "main sortSlice outputFile linuxVersion w =
     (case TempDir w of
        (None, w0) \<Rightarrow> (Fatal TempDirFailed, w0)
      | (Some tmp, w0) \<Rightarrow>
          (case runBuilders (builders sortSlice linuxVersion) tmp [] w0 of
             (Inl err, w1) \<Rightarrow> (Fatal err, w1)
           | (Inr arches, w1) \<Rightarrow>
               if createFails w1 outputFile then (Fatal CreateOutputFailed, w1)
               else let text = execTemplate \<lparr>LinuxVersion = linuxVersion, Arches = arches\<rparr>
                    in case writeFails w1 outputFile of
                         Some n \<Rightarrow>
                           (Fatal TemplateExecuteFailed,
                            w1\<lparr>files := (files w1)(outputFile \<mapsto> take n text)\<rparr>)
                       | None \<Rightarrow>
                           (Exit0,
                            RemoveAll tmp (w1\<lparr>files := (files w1)(outputFile \<mapsto> text)\<rparr>))))"

section \<open>Notions the properties are stated with\<close>

text \<open>
  A line matches the pattern of \<open>buildARM\<close> when it starts with \<open>#define __ARM_NR_\<close>, a
  non-empty name of the characters \<open>a-z\<close>, \<open>0-9\<close> and \<open>_\<close>, white space,
  \<open>(__ARM_NR_BASE+\<close>, a non-empty run of digits and \<open>)\<close>. It matches the pattern of
  \<open>buildAARCH64\<close> when it starts with \<open>#define __NR_\<close> or \<open>#define __NR3264_\<close>, a name,
  white space and a run of digits, which the greedy \<open>+\<close> takes to its end.
\<close>

definition armMacroLine :: "string \<Rightarrow> string \<Rightarrow> string \<Rightarrow> bool" where
  "armMacroLine line name number =
     (\<exists>ws rest.
        line = ''#define __ARM_NR_'' @ name @ ws @ ''(__ARM_NR_BASE+'' @ number @ '')'' @ rest \<and>
        name \<noteq> [] \<and> list_all nameChar name \<and>
        ws \<noteq> [] \<and> list_all perlSpace ws \<and>
        number \<noteq> [] \<and> list_all isDigit number)"

definition nrMacroLine :: "string \<Rightarrow> string \<Rightarrow> string \<Rightarrow> bool" where
  "nrMacroLine line name number =
     (\<exists>pre ws rest.
        (pre = ''#define __NR_'' \<or> pre = ''#define __NR3264_'') \<and>
        line = pre @ name @ ws @ number @ rest \<and>
        name \<noteq> [] \<and> list_all nameChar name \<and>
        ws \<noteq> [] \<and> list_all perlSpace ws \<and>
        number \<noteq> [] \<and> list_all isDigit number \<and>
        takeWhile isDigit rest = [])"

text \<open>The pairs a parser yields on a list of lines, and the lines of the file a run fetches
  for a path, as \<open>readSyscalls\<close> hands them to the parser.\<close>

definition yielded :: "parser \<Rightarrow> string list \<Rightarrow> Syscall list" where
  "yielded parse ls =
     concat (map (\<lambda>line. case parse line of Inr (Some sc) \<Rightarrow> [sc] | _ \<Rightarrow> []) ls)"

definition fetched :: "world \<Rightarrow> string \<Rightarrow> string \<Rightarrow> string list" where
  "fetched w linuxVersion path =
     (case httpGet w (baseURL @ linuxVersion @ path) of
        None \<Rightarrow> []
      | Some resp \<Rightarrow> map TrimSpace (fst (scanLines (Body resp))))"


text \<open>
  Two sorters that keep the promise of \<open>sort.Slice\<close>, for the runs on concrete input. Both
  are insertion sorts. \<open>insertionSort\<close> moves an element to the left while it is less than
  the element before it, as \<open>sort.Slice\<close> does on a slice of at most 12 elements;
  \<open>insertionSortTiesFirst\<close> also moves it past the elements it is equal to.
\<close>

fun insertBy :: "('a \<Rightarrow> 'a \<Rightarrow> bool) \<Rightarrow> 'a \<Rightarrow> 'a list \<Rightarrow> 'a list" where
  "insertBy lt x [] = [x]"
| "insertBy lt x (y # ys) = (if lt x y then x # y # ys else y # insertBy lt x ys)"

definition insertionSort :: sorter where
  "insertionSort lt xs = foldl (\<lambda>acc x. insertBy lt x acc) [] xs"

fun insertFirst :: "('a \<Rightarrow> 'a \<Rightarrow> bool) \<Rightarrow> 'a \<Rightarrow> 'a list \<Rightarrow> 'a list" where
  "insertFirst lt x [] = [x]"
| "insertFirst lt x (y # ys) = (if lt y x then y # insertFirst lt x ys else x # y # ys)"

definition insertionSortTiesFirst :: sorter where
  "insertionSortTiesFirst lt xs = foldl (\<lambda>acc x. insertFirst lt x acc) [] xs"

text \<open>
  A small run: the kernel tree serves five short files, every call into the operating system
  succeeds, and the scratch directory is \<open>/tmp/mk_linux_syscalls1\<close>.
\<close>

definition lf :: string where
  "lf = [CHR 0x0A]"

definition tab :: string where
  "tab = [CHR 0x09]"

definition fixtureFiles :: "(string \<times> string) list" where
  "fixtureFiles =
     [(buildARM_tablePath,
       ''# comment'' @ lf @
       ''1'' @ tab @ ''common'' @ tab @ ''exit'' @ tab @ ''sys_exit'' @ lf @
       ''7'' @ tab @ ''oabi'' @ tab @ ''waitpid'' @ tab @ ''sys_ni_syscall'' @ lf @
       ''0'' @ tab @ ''common'' @ tab @ ''restart_syscall'' @ tab @ ''sys_restart_syscall'' @ lf),
      (buildARM_headerPath,
       ''#define __ARM_NR_BASE'' @ tab @ ''(__NR_SYSCALL_BASE+0x0f0000)'' @ lf @
       ''#define __ARM_NR_breakpoint'' @ tab @ tab @ ''(__ARM_NR_BASE+1)'' @ lf),
      (buildAARCH64_headerPath,
       ''#define __NR3264_fcntl 25'' @ lf @
       ''#define __NR_io_setup 0'' @ lf @
       ''#define __NR_sync_file_range2 84'' @ lf @
       ''#define __NR_sync_file_range 84'' @ lf @
       ''#define __NR_syscalls 463'' @ lf),
      (build386_path,
       ''1'' @ tab @ ''i386'' @ tab @ ''exit'' @ tab @ ''sys_exit'' @ lf @
       ''0'' @ tab @ ''i386'' @ tab @ ''restart_syscall'' @ tab @ ''sys_restart_syscall'' @ lf),
      (buildX86_64_path,
       ''0'' @ tab @ ''common'' @ tab @ ''read'' @ tab @ ''sys_read'' @ lf @
       ''512'' @ tab @ ''x32'' @ tab @ ''rt_sigaction'' @ tab @ ''compat_sys_rt_sigaction'' @ lf @
       ''13'' @ tab @ ''64'' @ tab @ ''rt_sigaction'' @ tab @ ''sys_rt_sigaction'' @ lf @
       ''2'' @ tab @ ''x64'' @ tab @ ''open'' @ tab @ ''sys_open'' @ lf)]"

definition serve :: "string \<Rightarrow> (string \<times> string) list \<Rightarrow> string \<Rightarrow> Response option" where
  "serve linuxVersion fs url =
     (case List.find (\<lambda>(path, body). url = baseURL @ linuxVersion @ path) fs of
        None \<Rightarrow> Some \<lparr>StatusCode = 404, Body = ''404: Not Found''\<rparr>
      | Some (path, body) \<Rightarrow> Some \<lparr>StatusCode = 200, Body = body\<rparr>)"

definition quietWorld :: "(string \<Rightarrow> Response option) \<Rightarrow> world" where
  "quietWorld get =
     \<lparr>httpGet = get, files = (\<lambda>p. None), dirs = {''/tmp''},
      createFails = (\<lambda>p. False), writeFails = (\<lambda>p. None), openFails = (\<lambda>p. False),
      tempDir = Some ''/tmp/mk_linux_syscalls1''\<rparr>"

definition fixtureWorld :: world where
  "fixtureWorld = quietWorld (serve ''v6.13'' fixtureFiles)"
section \<open>The regular expression matcher\<close>

declare rmatch.simps [simp del]


lemma rmatch_suffix: "(s', c') \<in> set (rmatch t r s c) \<Longrightarrow> suffix s' s"
proof (induction t r s c arbitrary: s' c' rule: rmatch.induct)
  case (1 t s c)
  then show ?case by (auto simp: rmatch.simps split: if_splits)
next
  case (2 t l s c)
  then show ?case by (auto split: if_splits simp: rmatch.simps suffix_drop)
next
  case (3 t p s c)
  then show ?case by (auto split: if_splits list.splits simp: rmatch.simps suffix_Cons)
next
  case (4 t r1 r2 s c)
  from 4(3) obtain s1 c1 where a: "(s1, c1) \<in> set (rmatch t r1 s c)"
    and b: "length s1 \<le> length s" and d: "(s', c') \<in> set (rmatch t r2 s1 c1)"
    by (auto simp: rmatch.simps(4) split: if_splits)
  from 4(1) a have "suffix s1 s" by blast
  moreover from 4(2) a b d have "suffix s' s1" by blast
  ultimately show ?case by (meson suffix_order.trans)
next
  case (5 t r s c)
  then show ?case by (auto simp: rmatch.simps(5))
next
  case (6 t r s c)
  have "(s', c') \<in> set (concat (map (\<lambda>(s1, c1).
            (if length s1 < length s then rmatch t (Plus r) s1 c1 else []) @ [(s1, c1)])
          (rmatch t r s c)))"
    using 6(3) by (subst (asm) rmatch.simps(6))
  then obtain s1 c1 where a: "(s1, c1) \<in> set (rmatch t r s c)"
    and d: "(length s1 < length s \<and> (s', c') \<in> set (rmatch t (Plus r) s1 c1)) \<or> (s', c') = (s1, c1)"
    by (auto split: if_splits)
  from 6(1) a have e: "suffix s1 s" by blast
  from d show ?case
  proof
    assume f: "length s1 < length s \<and> (s', c') \<in> set (rmatch t (Plus r) s1 c1)"
    with 6(2) a have "suffix s' s1" by blast
    with e show ?thesis by (meson suffix_order.trans)
  next
    assume "(s', c') = (s1, c1)"
    with e show ?thesis by simp
  qed
next
  case (7 t n r s c)
  then show ?case by (auto simp: rmatch.simps(7))
qed


lemma rmatch_Seq:
  "rmatch t (Seq r1 r2) s c = concat (map (\<lambda>(s1, c1). rmatch t r2 s1 c1) (rmatch t r1 s c))"
proof -
  have "map (\<lambda>(s1, c1). if length s1 \<le> length s then rmatch t r2 s1 c1 else []) (rmatch t r1 s c)
        = map (\<lambda>(s1, c1). rmatch t r2 s1 c1) (rmatch t r1 s c)"
    by (rule map_cong) (auto dest!: rmatch_suffix suffix_length_le)
  then show ?thesis by (simp only: rmatch.simps(4))
qed

lemma rev_upt_from_1: "[Suc 0 ..< Suc (Suc n)] = Suc 0 # map Suc [Suc 0 ..< Suc n]"
  by (simp add: upt_conv_Cons map_Suc_upt del: upt_Suc)

lemma rmatch_Plus_Cls:
  "rmatch t (Plus (Cls p)) s c
     = map (\<lambda>k. (drop k s, c)) (rev [1 ..< Suc (length (takeWhile p s))])"
proof (induction s)
  case Nil
  show ?case by (simp add: rmatch.simps)
next
  case (Cons x xs)
  show ?case
  proof (cases "p x")
    case False
    then show ?thesis by (simp add: rmatch.simps)
  next
    case True
    let ?n = "length (takeWhile p xs)"
    have *: "map (\<lambda>k. (drop k (x # xs), c)) (rev [1 ..< Suc (Suc ?n)])
        = map (\<lambda>k. (drop k xs, c)) (rev [1 ..< Suc ?n]) @ [(xs, c)]"
      by (simp add: rev_upt_from_1 rev_map comp_def del: upt_Suc)
    have "rmatch t (Plus (Cls p)) (x # xs) c = rmatch t (Plus (Cls p)) xs c @ [(xs, c)]"
      using True by (simp add: rmatch.simps(6) rmatch.simps(3))
    with True Cons * show ?thesis by (simp del: upt_Suc)
  qed
qed

lemma rmatch_Cap_Plus_Cls:
  "rmatch t (Cap n (Plus (Cls p))) s c
     = map (\<lambda>k. (drop k s, c(n \<mapsto> take k s))) (rev [1 ..< Suc (length (takeWhile p s))])"
proof -
  have "k \<in> set (rev [1 ..< Suc (length (takeWhile p s))]) \<Longrightarrow> length s - length (drop k s) = k" for k
    using length_takeWhile_le [of p s] by auto
  then show ?thesis
    by (simp add: rmatch.simps(7) rmatch_Plus_Cls comp_def del: upt_Suc)
qed

lemma concat_map_rev_upt:
  assumes "\<And>k. 1 \<le> k \<Longrightarrow> k < K \<Longrightarrow> F k = []"
  shows "concat (map F (rev [1 ..< Suc K])) = (if K = 0 then [] else F K)"
proof (cases K)
  case 0
  then show ?thesis by simp
next
  case (Suc m)
  have "concat (map F (rev [1 ..< K])) = []"
    using assms by (auto simp del: upt_Suc)
  with Suc show ?thesis by simp
qed

lemma drop_in_takeWhile:
  assumes "k < length (takeWhile p s)"
  shows "\<exists>x xs. drop k s = x # xs \<and> p x"
proof -
  from assms have k: "k < length s"
    using length_takeWhile_le [of p s] by simp
  from assms have "takeWhile p s ! k \<in> set (takeWhile p s)" by simp
  then have "p (takeWhile p s ! k)" by (rule set_takeWhileD [THEN conjunct2])
  with assms have "p (s ! k)" by (simp add: takeWhile_nth)
  with k show ?thesis by (auto simp: Cons_nth_drop_Suc [symmetric])
qed

text \<open>A greedy class repetition followed by something that cannot start with a character
  of the class has one way to match: the whole run.\<close>

lemma rmatch_Seq_Cap_Plus:
  assumes rej: "\<And>x xs c'. p x \<Longrightarrow> rmatch t R (x # xs) c' = []"
  shows "rmatch t (Seq (Cap n (Plus (Cls p))) R) s c
           = (if takeWhile p s = [] then []
              else rmatch t R (dropWhile p s) (c(n \<mapsto> takeWhile p s)))"
proof -
  let ?K = "length (takeWhile p s)"
  let ?F = "\<lambda>k. rmatch t R (drop k s) (c(n \<mapsto> take k s))"
  have "?F k = []" if "1 \<le> k" "k < ?K" for k
    using drop_in_takeWhile [OF that(2)] rej by auto
  then have "concat (map ?F (rev [1 ..< Suc ?K])) = (if ?K = 0 then [] else ?F ?K)"
    by (rule concat_map_rev_upt)
  moreover have "rmatch t (Seq (Cap n (Plus (Cls p))) R) s c = concat (map ?F (rev [1 ..< Suc ?K]))"
    by (simp add: rmatch_Seq rmatch_Cap_Plus_Cls comp_def del: upt_Suc)
  ultimately show ?thesis
    by (simp add: dropWhile_eq_drop takeWhile_eq_take [symmetric])
qed

lemma rmatch_Seq_Plus:
  assumes rej: "\<And>x xs c'. p x \<Longrightarrow> rmatch t R (x # xs) c' = []"
  shows "rmatch t (Seq (Plus (Cls p)) R) s c
           = (if takeWhile p s = [] then [] else rmatch t R (dropWhile p s) c)"
proof -
  let ?K = "length (takeWhile p s)"
  let ?F = "\<lambda>k. rmatch t R (drop k s) c"
  have "?F k = []" if "1 \<le> k" "k < ?K" for k
    using drop_in_takeWhile [OF that(2)] rej by auto
  then have "concat (map ?F (rev [1 ..< Suc ?K])) = (if ?K = 0 then [] else ?F ?K)"
    by (rule concat_map_rev_upt)
  moreover have "rmatch t (Seq (Plus (Cls p)) R) s c = concat (map ?F (rev [1 ..< Suc ?K]))"
    by (simp add: rmatch_Seq rmatch_Plus_Cls comp_def del: upt_Suc)
  ultimately show ?thesis
    by (simp add: dropWhile_eq_drop)
qed

lemma rmatch_Seq_Lit:
  "rmatch t (Seq (Lit l) r) s c = (if prefix l s then rmatch t r (drop (length l) s) c else [])"
  by (simp add: rmatch_Seq rmatch.simps(2))

lemma rmatch_Seq_Opt_Lit:
  "rmatch t (Seq (Opt (Lit l)) r) s c
     = (if prefix l s then rmatch t r (drop (length l) s) c else []) @ rmatch t r s c"
  by (simp add: rmatch_Seq rmatch.simps(2) rmatch.simps(5))

lemma rmatch_Seq_Bol:
  "rmatch t (Seq Bol r) s c = (if length s = length t then rmatch t r s c else [])"
  by (simp add: rmatch_Seq rmatch.simps(1))

declare findFrom.simps [simp del]

lemma findFrom_Bol_later: "length s < length t \<Longrightarrow> findFrom (Seq Bol r) t s = []"
proof (induction s)
  case Nil
  then show ?case by (subst findFrom.simps) (simp add: rmatch_Seq_Bol)
next
  case (Cons x xs)
  then show ?case by (subst findFrom.simps) (simp add: rmatch_Seq_Bol)
qed

lemma FindStringSubmatch_anchored:
  "FindStringSubmatch (Seq Bol r) L =
     (case rmatch L r L (\<lambda>i. None) of
        [] \<Rightarrow> []
      | (rest, c) # others \<Rightarrow>
          take (length L - length rest) L #
          map (\<lambda>i. case c i of None \<Rightarrow> [] | Some g \<Rightarrow> g) [1 ..< Suc (numSubexp r)])"
  unfolding FindStringSubmatch_def
  by (subst findFrom.simps)
     (auto simp: rmatch_Seq_Bol findFrom_Bol_later split: list.splits)

section \<open>The two patterns\<close>

lemma class_facts:
  "nameChar x \<Longrightarrow> \<not> perlSpace x"
  "perlSpace x \<Longrightarrow> \<not> isDigit x"
  "perlSpace x \<Longrightarrow> x \<noteq> CHR ''(''"
  "isDigit x \<Longrightarrow> x \<noteq> CHR '')''"
  "perlSpace x \<Longrightarrow> CHR ''('' \<noteq> x"
  "isDigit x \<Longrightarrow> CHR '')'' \<noteq> x"
  by (auto simp: nameChar_def perlSpace_def isDigit_def)

lemma rmatch_Seq_Plus_reject:
  "\<not> p x \<Longrightarrow> rmatch t (Seq (Plus (Cls p)) R) (x # xs) c = []"
  by (simp add: rmatch_Seq rmatch_Plus_Cls)

lemma rmatch_Cap_Plus_reject:
  "\<not> p x \<Longrightarrow> rmatch t (Cap n (Plus (Cls p))) (x # xs) c = []"
  by (simp add: rmatch_Cap_Plus_Cls)

lemma rmatch_Cap_Plus_head:
  "rmatch t (Cap n (Plus (Cls p))) s c =
     (if takeWhile p s = [] then []
      else (dropWhile p s, c(n \<mapsto> takeWhile p s)) #
           map (\<lambda>k. (drop k s, c(n \<mapsto> take k s))) (rev [1 ..< length (takeWhile p s)]))"
proof (cases "takeWhile p s = []")
  case True
  then show ?thesis by (simp add: rmatch_Cap_Plus_Cls)
next
  case False
  let ?K = "length (takeWhile p s)"
  from False have "1 \<le> ?K" by (cases "takeWhile p s") auto
  then have "rev [1 ..< Suc ?K] = ?K # rev [1 ..< ?K]" by simp
  moreover have "take ?K s = takeWhile p s" by (simp add: takeWhile_eq_take [symmetric])
  moreover have "drop ?K s = dropWhile p s" by (simp add: dropWhile_eq_drop)
  ultimately show ?thesis using False by (simp add: rmatch_Cap_Plus_Cls del: upt_Suc)
qed

lemma arm_rmatch:
  "rmatch t (Seq (Lit ''#define __ARM_NR_'') (Seq (Cap 1 (Plus (Cls nameChar)))
       (Seq (Plus (Cls perlSpace)) (Seq (Lit ''(__ARM_NR_BASE+'')
         (Seq (Cap 2 (Plus (Cls isDigit))) (Lit '')'')))))) L c =
   (let s0 = drop (length ''#define __ARM_NR_'') L; s1 = dropWhile nameChar s0;
        s2 = dropWhile perlSpace s1;
        s3 = drop (length ''(__ARM_NR_BASE+'') s2; s4 = dropWhile isDigit s3
    in if prefix ''#define __ARM_NR_'' L \<and> takeWhile nameChar s0 \<noteq> [] \<and>
          takeWhile perlSpace s1 \<noteq> [] \<and> prefix ''(__ARM_NR_BASE+'' s2 \<and>
          takeWhile isDigit s3 \<noteq> [] \<and> prefix '')'' s4
       then [(drop (length '')'') s4, c(1 \<mapsto> takeWhile nameChar s0, 2 \<mapsto> takeWhile isDigit s3))]
       else [])"
proof -
  let ?R5 = "Lit '')''"
  let ?R4 = "Seq (Cap 2 (Plus (Cls isDigit))) ?R5"
  let ?R3 = "Seq (Lit ''(__ARM_NR_BASE+'') ?R4"
  let ?R2 = "Seq (Plus (Cls perlSpace)) ?R3"
  let ?R1 = "Seq (Cap 1 (Plus (Cls nameChar))) ?R2"
  have e4: "rmatch t ?R4 s c' =
      (if takeWhile isDigit s = [] then []
       else rmatch t ?R5 (dropWhile isDigit s) (c'(2 \<mapsto> takeWhile isDigit s)))" for s c'
    by (rule rmatch_Seq_Cap_Plus) (simp add: rmatch.simps(2) class_facts)
  have e2: "rmatch t ?R2 s c' =
      (if takeWhile perlSpace s = [] then [] else rmatch t ?R3 (dropWhile perlSpace s) c')" for s c'
    by (rule rmatch_Seq_Plus) (simp add: rmatch_Seq_Lit class_facts)
  have e1: "rmatch t ?R1 s c' =
      (if takeWhile nameChar s = [] then []
       else rmatch t ?R2 (dropWhile nameChar s) (c'(1 \<mapsto> takeWhile nameChar s)))" for s c'
    by (rule rmatch_Seq_Cap_Plus) (simp add: rmatch_Seq_Plus_reject class_facts)
  show ?thesis
    by (simp add: rmatch_Seq_Lit [of t _ ?R1] e1 e2 rmatch_Seq_Lit [of t _ ?R4] e4
          rmatch.simps(2) Let_def del: One_nat_def)
qed

lemma aarch64_rmatch:
  "\<exists>others. rmatch t (Seq (Lit ''#define __NR'') (Seq (Opt (Lit ''3264'')) (Seq (Lit ''_'')
       (Seq (Cap 1 (Plus (Cls nameChar))) (Seq (Plus (Cls perlSpace))
         (Cap 2 (Plus (Cls isDigit)))))))) L c =
   (let s0 = drop (length ''#define __NR'') L;
        s1 = (if prefix ''3264'' s0 then drop (length ''3264'') s0 else s0);
        s2 = drop (length ''_'') s1;
        s3 = dropWhile nameChar s2; s4 = dropWhile perlSpace s3
    in if prefix ''#define __NR'' L \<and> prefix ''_'' s1 \<and> takeWhile nameChar s2 \<noteq> [] \<and>
          takeWhile perlSpace s3 \<noteq> [] \<and> takeWhile isDigit s4 \<noteq> []
       then (dropWhile isDigit s4, c(1 \<mapsto> takeWhile nameChar s2, 2 \<mapsto> takeWhile isDigit s4)) # others
       else [])"
proof -
  let ?R5 = "Cap 2 (Plus (Cls isDigit))"
  let ?R4 = "Seq (Plus (Cls perlSpace)) ?R5"
  let ?R3 = "Seq (Cap 1 (Plus (Cls nameChar))) ?R4"
  let ?R2 = "Seq (Lit ''_'') ?R3"
  let ?R1 = "Seq (Opt (Lit ''3264'')) ?R2"
  have e4: "rmatch t ?R4 s c' =
      (if takeWhile perlSpace s = [] then [] else rmatch t ?R5 (dropWhile perlSpace s) c')" for s c'
    by (rule rmatch_Seq_Plus) (simp add: rmatch_Cap_Plus_reject class_facts)
  have e3: "rmatch t ?R3 s c' =
      (if takeWhile nameChar s = [] then []
       else rmatch t ?R4 (dropWhile nameChar s) (c'(1 \<mapsto> takeWhile nameChar s)))" for s c'
    by (rule rmatch_Seq_Cap_Plus) (simp add: rmatch_Seq_Plus_reject class_facts)
  have e2: "rmatch t ?R2 s c' =
      (if prefix ''_'' s then rmatch t ?R3 (drop (length ''_'') s) c' else [])" for s c'
    by (simp add: rmatch_Seq_Lit)
  have e1: "rmatch t ?R1 s c' =
      rmatch t ?R2 (if prefix ''3264'' s then drop (length ''3264'') s else s) c'" for s c'
  proof (cases "prefix ''3264'' s")
    case True
    then have "\<not> prefix ''_'' s" by (auto simp: prefix_def)
    with True show ?thesis by (simp add: rmatch_Seq_Opt_Lit [of t _ ?R2] e2 del: One_nat_def)
  next
    case False
    then show ?thesis by (simp add: rmatch_Seq_Opt_Lit [of t _ ?R2] del: One_nat_def)
  qed
  show ?thesis
    by (simp add: rmatch_Seq_Lit [of t _ ?R1] e1 e2 e3 e4 rmatch_Cap_Plus_head Let_def
          del: upt_Suc One_nat_def)
qed

lemma takeWhile_append_stop:
  assumes "list_all P xs" "ys = [] \<or> \<not> P (hd ys)"
  shows "takeWhile P (xs @ ys) = xs" and "dropWhile P (xs @ ys) = ys"
  using assms by (induction xs) (cases ys; auto)+

lemma list_all_hd: "list_all P xs \<Longrightarrow> xs \<noteq> [] \<Longrightarrow> P (hd xs)"
  by (cases xs) auto

lemma list_all_takeWhile: "list_all P (takeWhile P xs)"
  by (induction xs) auto

lemma dropWhile_stop: "dropWhile P xs = [] \<or> \<not> P (hd (dropWhile P xs))"
  using hd_dropWhile [of P xs] by blast

lemma prefix_split: "prefix p s \<Longrightarrow> s = p @ drop (length p) s"
  by (auto simp: prefix_def)

lemma arm_find:
  "FindStringSubmatch armUnistdSycallRegex_ARM L =
   (let s0 = drop (length ''#define __ARM_NR_'') L; s1 = dropWhile nameChar s0;
        s2 = dropWhile perlSpace s1;
        s3 = drop (length ''(__ARM_NR_BASE+'') s2; s4 = dropWhile isDigit s3
    in if prefix ''#define __ARM_NR_'' L \<and> takeWhile nameChar s0 \<noteq> [] \<and>
          takeWhile perlSpace s1 \<noteq> [] \<and> prefix ''(__ARM_NR_BASE+'' s2 \<and>
          takeWhile isDigit s3 \<noteq> [] \<and> prefix '')'' s4
       then [take (length L - length (drop (length '')'') s4)) L,
             takeWhile nameChar s0, takeWhile isDigit s3]
       else [])"
  unfolding armUnistdSycallRegex_ARM_def FindStringSubmatch_anchored arm_rmatch
  by (simp add: Let_def del: One_nat_def)

lemma arm_find_macro:
  assumes "armMacroLine line name number"
  shows "\<exists>m0. FindStringSubmatch armUnistdSycallRegex_ARM line = [m0, name, number]"
proof -
  from assms obtain ws rest where
    l: "line = ''#define __ARM_NR_'' @ name @ ws @ ''(__ARM_NR_BASE+'' @ number @ '')'' @ rest"
    and n: "name \<noteq> []" "list_all nameChar name"
    and w: "ws \<noteq> []" "list_all perlSpace ws"
    and d: "number \<noteq> []" "list_all isDigit number"
    unfolding armMacroLine_def by blast
  let ?s0 = "name @ ws @ ''(__ARM_NR_BASE+'' @ number @ '')'' @ rest"
  let ?s1 = "ws @ ''(__ARM_NR_BASE+'' @ number @ '')'' @ rest"
  let ?s2 = "''(__ARM_NR_BASE+'' @ number @ '')'' @ rest"
  let ?s3 = "number @ '')'' @ rest"
  let ?s4 = "'')'' @ rest"
  have p: "prefix ''#define __ARM_NR_'' line" and s0: "drop (length ''#define __ARM_NR_'') line = ?s0"
    by (simp_all add: l)
  have "\<not> nameChar (hd ?s1)"
    using w list_all_hd [of perlSpace ws] class_facts(1) [of "hd ws"] by auto
  then have t0: "takeWhile nameChar ?s0 = name" and d0: "dropWhile nameChar ?s0 = ?s1"
    using takeWhile_append_stop [of nameChar name ?s1] n by simp_all
  have "\<not> perlSpace (hd ?s2)" by (simp add: perlSpace_def)
  then have t1: "takeWhile perlSpace ?s1 = ws" and d1: "dropWhile perlSpace ?s1 = ?s2"
    using takeWhile_append_stop [of perlSpace ws ?s2] w by simp_all
  have p2: "prefix ''(__ARM_NR_BASE+'' ?s2" and s3: "drop (length ''(__ARM_NR_BASE+'') ?s2 = ?s3"
    by simp_all
  have "\<not> isDigit (hd ?s4)" by (simp add: isDigit_def)
  then have t3: "takeWhile isDigit ?s3 = number" and d3: "dropWhile isDigit ?s3 = ?s4"
    using takeWhile_append_stop [of isDigit number ?s4] d by simp_all
  have p4: "prefix '')'' ?s4" by simp
  show ?thesis
    unfolding arm_find Let_def s0 t0 d0 t1 d1 s3 t3 d3
    using p p2 p4 n w d by simp
qed

lemma arm_find_shape:
  assumes "FindStringSubmatch armUnistdSycallRegex_ARM line \<noteq> []"
  shows "\<exists>m0 name number. FindStringSubmatch armUnistdSycallRegex_ARM line = [m0, name, number]
           \<and> armMacroLine line name number"
proof -
  let ?s0 = "drop (length ''#define __ARM_NR_'') line"
  let ?s1 = "dropWhile nameChar ?s0"
  let ?s2 = "dropWhile perlSpace ?s1"
  let ?s3 = "drop (length ''(__ARM_NR_BASE+'') ?s2"
  let ?s4 = "dropWhile isDigit ?s3"
  from assms have c: "prefix ''#define __ARM_NR_'' line" "takeWhile nameChar ?s0 \<noteq> []"
      "takeWhile perlSpace ?s1 \<noteq> []" "prefix ''(__ARM_NR_BASE+'' ?s2"
      "takeWhile isDigit ?s3 \<noteq> []" "prefix '')'' ?s4"
    unfolding arm_find Let_def by (auto split: if_splits)
  then have f: "FindStringSubmatch armUnistdSycallRegex_ARM line
      = [take (length line - length (drop (length '')'') ?s4)) line,
         takeWhile nameChar ?s0, takeWhile isDigit ?s3]"
    unfolding arm_find Let_def by simp
  have "line = ''#define __ARM_NR_'' @ ?s0" using c(1) by (rule prefix_split)
  also have "?s0 = takeWhile nameChar ?s0 @ ?s1" by simp
  also have "?s1 = takeWhile perlSpace ?s1 @ ?s2" by simp
  also have "?s2 = ''(__ARM_NR_BASE+'' @ ?s3" using c(4) by (rule prefix_split)
  also have "?s3 = takeWhile isDigit ?s3 @ ?s4" by simp
  also have "?s4 = '')'' @ drop (length '')'') ?s4" using c(6) by (rule prefix_split)
  finally have "line = ''#define __ARM_NR_'' @ takeWhile nameChar ?s0 @ takeWhile perlSpace ?s1
      @ ''(__ARM_NR_BASE+'' @ takeWhile isDigit ?s3 @ '')'' @ drop (length '')'') ?s4" .
  then have "armMacroLine line (takeWhile nameChar ?s0) (takeWhile isDigit ?s3)"
    unfolding armMacroLine_def using c list_all_takeWhile by blast
  with f show ?thesis by blast
qed

lemma aarch64_find:
  "FindStringSubmatch armUnistdSycallRegex_AARCH64 L =
   (let s0 = drop (length ''#define __NR'') L;
        s1 = (if prefix ''3264'' s0 then drop (length ''3264'') s0 else s0);
        s2 = drop (length ''_'') s1;
        s3 = dropWhile nameChar s2; s4 = dropWhile perlSpace s3
    in if prefix ''#define __NR'' L \<and> prefix ''_'' s1 \<and> takeWhile nameChar s2 \<noteq> [] \<and>
          takeWhile perlSpace s3 \<noteq> [] \<and> takeWhile isDigit s4 \<noteq> []
       then [take (length L - length (dropWhile isDigit s4)) L,
             takeWhile nameChar s2, takeWhile isDigit s4]
       else [])"
proof -
  obtain others where
    "rmatch L (Seq (Lit ''#define __NR'') (Seq (Opt (Lit ''3264'')) (Seq (Lit ''_'')
       (Seq (Cap 1 (Plus (Cls nameChar))) (Seq (Plus (Cls perlSpace))
         (Cap 2 (Plus (Cls isDigit)))))))) L (\<lambda>i. None) =
     (let s0 = drop (length ''#define __NR'') L;
        s1 = (if prefix ''3264'' s0 then drop (length ''3264'') s0 else s0);
        s2 = drop (length ''_'') s1;
        s3 = dropWhile nameChar s2; s4 = dropWhile perlSpace s3
      in if prefix ''#define __NR'' L \<and> prefix ''_'' s1 \<and> takeWhile nameChar s2 \<noteq> [] \<and>
          takeWhile perlSpace s3 \<noteq> [] \<and> takeWhile isDigit s4 \<noteq> []
       then (dropWhile isDigit s4,
             (\<lambda>i. None)(1 \<mapsto> takeWhile nameChar s2, 2 \<mapsto> takeWhile isDigit s4)) # others
       else [])"
    using aarch64_rmatch [of L L "\<lambda>i. None"] by blast
  then show ?thesis
    unfolding armUnistdSycallRegex_AARCH64_def FindStringSubmatch_anchored
    by (simp add: Let_def del: One_nat_def)
qed

lemma nr_find_macro:
  assumes "nrMacroLine line name number"
  shows "\<exists>m0. FindStringSubmatch armUnistdSycallRegex_AARCH64 line = [m0, name, number]"
proof -
  from assms obtain pre ws rest where
    pre: "pre = ''#define __NR_'' \<or> pre = ''#define __NR3264_''"
    and l: "line = pre @ name @ ws @ number @ rest"
    and n: "name \<noteq> []" "list_all nameChar name"
    and w: "ws \<noteq> []" "list_all perlSpace ws"
    and d: "number \<noteq> []" "list_all isDigit number"
    and r: "rest = [] \<or> \<not> isDigit (hd rest)"
    unfolding nrMacroLine_def takeWhile_eq_Nil_iff by blast
  let ?s2 = "name @ ws @ number @ rest"
  let ?s3 = "ws @ number @ rest"
  let ?s4 = "number @ rest"
  let ?s0 = "drop (length ''#define __NR'') line"
  let ?s1 = "if prefix ''3264'' ?s0 then drop (length ''3264'') ?s0 else ?s0"
  from pre l have p: "prefix ''#define __NR'' line" by auto
  from pre l have s1: "?s1 = ''_'' @ ?s2" by auto
  then have p1: "prefix ''_'' ?s1" and s2: "drop (length ''_'') ?s1 = ?s2" by simp_all
  have "\<not> nameChar (hd ?s3)"
    using w list_all_hd [of perlSpace ws] class_facts(1) [of "hd ws"] by auto
  then have t2: "takeWhile nameChar ?s2 = name" and d2: "dropWhile nameChar ?s2 = ?s3"
    using takeWhile_append_stop [of nameChar name ?s3] n by simp_all
  have "\<not> perlSpace (hd ?s4)"
    using d list_all_hd [of isDigit number] class_facts(2) [of "hd number"] by auto
  then have t3: "takeWhile perlSpace ?s3 = ws" and d3: "dropWhile perlSpace ?s3 = ?s4"
    using takeWhile_append_stop [of perlSpace ws ?s4] w by simp_all
  have t4: "takeWhile isDigit ?s4 = number"
    using takeWhile_append_stop [of isDigit number rest] d r by simp
  show ?thesis
    unfolding aarch64_find Let_def s2 t2 d2 t3 d3 t4
    using p p1 n w d by simp
qed

lemma nr_find_shape:
  assumes "FindStringSubmatch armUnistdSycallRegex_AARCH64 line \<noteq> []"
  shows "\<exists>m0 name number. FindStringSubmatch armUnistdSycallRegex_AARCH64 line = [m0, name, number]
           \<and> nrMacroLine line name number"
proof -
  let ?s0 = "drop (length ''#define __NR'') line"
  let ?s1 = "if prefix ''3264'' ?s0 then drop (length ''3264'') ?s0 else ?s0"
  let ?s2 = "drop (length ''_'') ?s1"
  let ?s3 = "dropWhile nameChar ?s2"
  let ?s4 = "dropWhile perlSpace ?s3"
  let ?rest = "dropWhile isDigit ?s4"
  from assms have c: "prefix ''#define __NR'' line" "prefix ''_'' ?s1"
      "takeWhile nameChar ?s2 \<noteq> []" "takeWhile perlSpace ?s3 \<noteq> []"
      "takeWhile isDigit ?s4 \<noteq> []"
    unfolding aarch64_find Let_def by (auto split: if_splits)
  then have f: "FindStringSubmatch armUnistdSycallRegex_AARCH64 line
      = [take (length line - length ?rest) line, takeWhile nameChar ?s2, takeWhile isDigit ?s4]"
    unfolding aarch64_find Let_def by simp
  from c(1) obtain r0 where r0: "line = ''#define __NR'' @ r0"
    by (auto simp: prefix_def)
  have "\<exists>pre. (pre = ''#define __NR_'' \<or> pre = ''#define __NR3264_'') \<and> line = pre @ ?s2"
  proof (cases "prefix ''3264'' r0")
    case True
    then obtain r1 where r1: "r0 = ''3264'' @ r1"
      by (auto simp: prefix_def)
    from c(2) have "prefix ''_'' r1" by (simp add: r0 r1)
    then obtain r2 where r2: "r1 = ''_'' @ r2"
      by (auto simp: prefix_def)
    show ?thesis
      by (rule exI [of _ "''#define __NR3264_''"]) (simp add: r0 r1 r2)
  next
    case False
    with c(2) have "prefix ''_'' r0" by (simp add: r0)
    then obtain r2 where r2: "r0 = ''_'' @ r2"
      by (auto simp: prefix_def)
    show ?thesis
      by (rule exI [of _ "''#define __NR_''"]) (simp add: r0 r2)
  qed
  then obtain pre where pre: "pre = ''#define __NR_'' \<or> pre = ''#define __NR3264_''"
    and "line = pre @ ?s2" by blast
  note this(2)
  also have "?s2 = takeWhile nameChar ?s2 @ ?s3" by simp
  also have "?s3 = takeWhile perlSpace ?s3 @ ?s4" by simp
  also have "?s4 = takeWhile isDigit ?s4 @ ?rest" by simp
  finally have l: "line = pre @ takeWhile nameChar ?s2 @ takeWhile perlSpace ?s3
      @ takeWhile isDigit ?s4 @ ?rest" .
  have r: "takeWhile isDigit ?rest = []"
    using dropWhile_stop [of isDigit ?s4] unfolding takeWhile_eq_Nil_iff .
  from pre l r c have "nrMacroLine line (takeWhile nameChar ?s2) (takeWhile isDigit ?s4)"
    unfolding nrMacroLine_def using list_all_takeWhile by blast
  with f show ?thesis by blast
qed

section \<open>The scan loop, downloadFile and readSyscalls\<close>

lemma yielded_Nil [simp]: "yielded parse [] = []"
  by (simp add: yielded_def)

lemma yielded_Cons:
  "yielded parse (l # ls) =
     (case parse l of Inr (Some sc) \<Rightarrow> [sc] | _ \<Rightarrow> []) @ yielded parse ls"
  by (simp add: yielded_def)

lemma scanLoop_Inr:
  "scanLoop parse ls acc = Inr out \<Longrightarrow> out = acc @ yielded parse (map TrimSpace ls)"
proof (induction ls arbitrary: acc)
  case Nil
  then show ?case by simp
next
  case (Cons l ls)
  show ?case
  proof (cases "parse (TrimSpace l)")
    case (Inl e)
    with Cons.prems show ?thesis by simp
  next
    case (Inr r)
    show ?thesis
    proof (cases r)
      case None
      with Inr Cons.prems Cons.IH [of acc] show ?thesis
        by (simp add: yielded_Cons)
    next
      case (Some sc)
      with Inr Cons.prems Cons.IH [of "acc @ [sc]"] show ?thesis
        by (simp add: yielded_Cons)
    qed
  qed
qed

lemma scanLoop_Inr_lines:
  "scanLoop parse ls acc = Inr out \<Longrightarrow> l \<in> set ls \<Longrightarrow> \<exists>r. parse (TrimSpace l) = Inr r"
proof (induction ls arbitrary: acc)
  case Nil
  then show ?case by simp
next
  case (Cons a ls)
  then show ?case
    by (cases "parse (TrimSpace a)") (auto split: option.splits)
qed

lemma scanLoop_Inl:
  "l \<in> set ls \<Longrightarrow> parse (TrimSpace l) = Inl e \<Longrightarrow> \<exists>e'. scanLoop parse ls acc = Inl e'"
  using scanLoop_Inr_lines [of parse ls acc _ l]
  by (cases "scanLoop parse ls acc") auto

lemma scanLoop_total:
  "(\<And>l. l \<in> set ls \<Longrightarrow> \<exists>r. parse (TrimSpace l) = Inr r)
     \<Longrightarrow> scanLoop parse ls acc = Inr (acc @ yielded parse (map TrimSpace ls))"
proof (induction ls arbitrary: acc)
  case Nil
  then show ?case by simp
next
  case (Cons a ls)
  from Cons.prems [of a] obtain r where r: "parse (TrimSpace a) = Inr r" by auto
  have "scanLoop parse ls acc' = Inr (acc' @ yielded parse (map TrimSpace ls))" for acc'
    using Cons.IH Cons.prems by simp
  with r show ?case by (cases r) (simp_all add: yielded_Cons)
qed

lemma set_yielded:
  "sc \<in> set (yielded parse ls) \<longleftrightarrow> (\<exists>l \<in> set ls. parse l = Inr (Some sc))"
  by (induction ls) (auto simp: yielded_Cons split: sum.splits option.splits)

subsection \<open>downloadFile and readSyscalls\<close>

lemma downloadFile_frame:
  assumes "downloadFile url d w = (r, w')"
  shows "httpGet w' = httpGet w" "createFails w' = createFails w" "writeFails w' = writeFails w"
    "openFails w' = openFails w" "tempDir w' = tempDir w" "dirs w' = dirs w"
  using assms
  by (auto simp: downloadFile_def Let_def split: option.splits if_splits)

lemma downloadFile_files:
  assumes "downloadFile url d w = (r, w')" "q \<noteq> Join d (Base url)"
  shows "files w' q = files w q"
  using assms
  by (auto simp: downloadFile_def Let_def split: option.splits if_splits)

lemma downloadFile_Inr:
  assumes "downloadFile url d w = (Inr name, w')"
  shows "\<exists>resp. httpGet w url = Some resp \<and> StatusCode resp = StatusOK \<and>
           name = Join d (Base url) \<and> \<not> createFails w name \<and> writeFails w name = None \<and>
           w' = w\<lparr>files := (files w)(name \<mapsto> Body resp)\<rparr>"
  using assms
  by (auto simp: downloadFile_def Let_def split: option.splits if_splits)

lemma readSyscalls_frame:
  assumes "readSyscalls v path d parse w = (r, w')"
  shows "httpGet w' = httpGet w" "createFails w' = createFails w" "writeFails w' = writeFails w"
    "openFails w' = openFails w" "tempDir w' = tempDir w" "dirs w' = dirs w"
  using assms downloadFile_frame [of "baseURL @ v @ path" d w]
  by (auto simp: readSyscalls_def Let_def split: prod.splits sum.splits option.splits)

lemma readSyscalls_files:
  assumes "readSyscalls v path d parse w = (r, w')" "q \<noteq> Join d (Base (baseURL @ v @ path))"
  shows "files w' q = files w q"
  using assms downloadFile_files [of "baseURL @ v @ path" d w _ _ q]
  by (auto simp: readSyscalls_def Let_def split: prod.splits sum.splits option.splits)

lemma readSyscalls_ok:
  assumes "readSyscalls v path d parse w = ((out, None), w')"
  shows "\<exists>resp. httpGet w (baseURL @ v @ path) = Some resp \<and> StatusCode resp = StatusOK \<and>
           scanLoop parse (fst (scanLines (Body resp))) [] = Inr out \<and>
           snd (scanLines (Body resp)) = None"
proof -
  let ?url = "baseURL @ v @ path"
  obtain r w1 where dl: "downloadFile ?url d w = (r, w1)" by (cases "downloadFile ?url d w")
  with assms obtain src where r: "r = Inr src"
    by (cases r) (auto simp: readSyscalls_def Let_def)
  from downloadFile_Inr [OF dl [unfolded r]] obtain resp where
    resp: "httpGet w ?url = Some resp" "StatusCode resp = StatusOK"
    and w1: "w1 = w\<lparr>files := (files w)(src \<mapsto> Body resp)\<rparr>" by blast
  from w1 have "osOpen w1 src = (if openFails w src then None else Some (Body resp))"
    by (simp add: osOpen_def)
  with assms dl r resp show ?thesis
    by (auto simp: readSyscalls_def Let_def split: if_splits sum.splits)
qed

lemma readSyscalls_yielded:
  assumes "readSyscalls v path d parse w = ((out, None), w')"
  shows "out = yielded parse (fetched w v path)"
  using readSyscalls_ok [OF assms] scanLoop_Inr [of parse _ "[]" out]
  by (auto simp: fetched_def)
section \<open>Properties of the table-format parsers\<close>

text \<open>
  Claim C1. An empty line and a line that starts with \<open>#\<close> yield nothing in each of the four
  table-format parsers. A line that is neither, and whose white-space-separated fields are
  \<open>num\<close>, \<open>abi\<close>, \<open>name\<close> and possibly more, yields nothing when \<open>abi\<close> is the variant the parser
  excludes (\<open>oabi\<close> for ARM, \<open>x64\<close> for X32, \<open>x32\<close> for X86_64; 386 excludes none), and otherwise
  yields the pair of the number \<open>num\<close> parses to and of \<open>name\<close>.
\<close>

theorem table_parsers_yield:
  "(line = [] \<or> HasPrefix line ''#'' \<longrightarrow>
      buildARM_parseTable line = Inr None \<and> build386_parse line = Inr None \<and>
      buildX32_parse line = Inr None \<and> buildX86_64_parse line = Inr None)
   \<and>
   (line \<noteq> [] \<and> \<not> HasPrefix line ''#'' \<and> Fields line = num # abi # name # rest \<longrightarrow>
      (abi = ''oabi'' \<longrightarrow> buildARM_parseTable line = Inr None) \<and>
      (abi = ''x64'' \<longrightarrow> buildX32_parse line = Inr None) \<and>
      (abi = ''x32'' \<longrightarrow> buildX86_64_parse line = Inr None) \<and>
      (Atoi num = Some n \<longrightarrow>
         (abi \<noteq> ''oabi'' \<longrightarrow> buildARM_parseTable line = Inr (Some \<lparr>Num = n, Name = name\<rparr>)) \<and>
         build386_parse line = Inr (Some \<lparr>Num = n, Name = name\<rparr>) \<and>
         (abi \<noteq> ''x64'' \<longrightarrow> buildX32_parse line = Inr (Some \<lparr>Num = n, Name = name\<rparr>)) \<and>
         (abi \<noteq> ''x32'' \<longrightarrow> buildX86_64_parse line = Inr (Some \<lparr>Num = n, Name = name\<rparr>))))"
  by (simp add: buildARM_parseTable_def build386_parse_def buildX32_parse_def
        buildX86_64_parse_def)

theorem table_parsers_yield_witness:
  "buildARM_parseTable ''4	common	write			sys_write'' = Inr (Some \<lparr>Num = 4, Name = ''write''\<rparr>) \<and>
   build386_parse ''4	common	write			sys_write'' = Inr (Some \<lparr>Num = 4, Name = ''write''\<rparr>) \<and>
   buildX32_parse ''4	common	write			sys_write'' = Inr (Some \<lparr>Num = 4, Name = ''write''\<rparr>) \<and>
   buildX86_64_parse ''4	common	write			sys_write'' = Inr (Some \<lparr>Num = 4, Name = ''write''\<rparr>) \<and>
   buildARM_parseTable ''7 oabi waitpid sys_ni_syscall'' = Inr None \<and>
   buildX32_parse ''0 x64 read sys_read'' = Inr None \<and>
   buildX86_64_parse ''512 x32 rt_sigaction compat_sys_rt_sigaction'' = Inr None \<and>
   buildARM_parseTable ''# comment'' = Inr None \<and>
   buildX86_64_parse [] = Inr None"
proof -
  have f1: "Fields ''4	common	write			sys_write'' = [''4'', ''common'', ''write'', ''sys_write'']"
    by code_simp
  have f2: "Fields ''7 oabi waitpid sys_ni_syscall'' = [''7'', ''oabi'', ''waitpid'', ''sys_ni_syscall'']"
    by code_simp
  have f3: "Fields ''0 x64 read sys_read'' = [''0'', ''x64'', ''read'', ''sys_read'']"
    by code_simp
  have f4: "Fields ''512 x32 rt_sigaction compat_sys_rt_sigaction''
              = [''512'', ''x32'', ''rt_sigaction'', ''compat_sys_rt_sigaction'']"
    by code_simp
  have a: "Atoi ''4'' = Some 4"
    by code_simp
  have h: "HasPrefix ''# comment'' ''#''"
    by (simp add: HasPrefix_def)
  show ?thesis
    using table_parsers_yield [of "''4	common	write			sys_write''" "''4''" "''common''" "''write''"
            "[''sys_write'']" 4]
          table_parsers_yield [of "''7 oabi waitpid sys_ni_syscall''" "''7''" "''oabi''" "''waitpid''"
            "[''sys_ni_syscall'']"]
          table_parsers_yield [of "''0 x64 read sys_read''" "''0''" "''x64''" "''read''" "[''sys_read'']"]
          table_parsers_yield [of "''512 x32 rt_sigaction compat_sys_rt_sigaction''" "''512''" "''x32''"
            "''rt_sigaction''" "[''compat_sys_rt_sigaction'']"]
          table_parsers_yield [of "''# comment''"]
          table_parsers_yield [of "[]"]
          f1 f2 f3 f4 a h
    by (simp add: HasPrefix_def)
qed


end
